theory Spec2Isabelle
  imports Complex_Main
begin

section \<open>Python values that the record API handles\<close>

text \<open>
  A Python \<open>str\<close> is a sequence of Unicode code points; a code point is a natural
  number. \<open>py\<close> turns an ASCII literal of the source into such a sequence.
\<close>

type_synonym pystr = "nat list"

definition py :: "string \<Rightarrow> pystr" where
  "py s = map of_char s"

text \<open>
  \<open>str.strip()\<close> with no argument removes leading and trailing characters for which
  \<open>str.isspace\<close> holds: the code points 9-13, 28-32, 133, 160, 5760, 8192-8202, 8232,
  8233, 8239, 8287 and 12288.
\<close>

definition isspace :: "nat \<Rightarrow> bool" where
  "isspace c = ((9 \<le> c \<and> c \<le> 13) \<or> (28 \<le> c \<and> c \<le> 32) \<or> c = 133 \<or> c = 160
     \<or> c = 5760 \<or> (8192 \<le> c \<and> c \<le> 8202) \<or> c = 8232 \<or> c = 8233 \<or> c = 8239
     \<or> c = 8287 \<or> c = 12288)"

definition strip :: "pystr \<Rightarrow> pystr" where
  "strip s = rev (dropWhile isspace (rev (dropWhile isspace s)))"

text \<open>
  What \<open>request.get_json()\<close> returns: \<open>None\<close> for JSON \<open>null\<close>, a \<open>bool\<close>, an
  \<open>int\<close>, a \<open>float\<close>, a \<open>str\<close>, a \<open>list\<close> or a \<open>dict\<close>. A dict is kept as the list
  of its items, looked up with \<open>map_of\<close>; the empty dict is the empty list.
\<close>

datatype json =
    JNull
  | JBool bool
  | JInt int
  | JFloat real
  | JStr pystr
  | JArr "json list"
  | JObj "(pystr \<times> json) list"

text \<open>Python's truth value of an object, as \<open>not data\<close> and \<open>if x\<close> test it.\<close>

fun truthy :: "json \<Rightarrow> bool" where
  "truthy JNull = False"
| "truthy (JBool b) = b"
| "truthy (JInt i) = (i \<noteq> 0)"
| "truthy (JFloat x) = (x \<noteq> 0)"
| "truthy (JStr s) = (s \<noteq> [])"
| "truthy (JArr xs) = (xs \<noteq> [])"
| "truthy (JObj kvs) = (kvs \<noteq> [])"

text \<open>The exceptions that the handlers can raise.\<close>

datatype py_exc =
    AttributeError
  | TypeError
  | KeyError
  | NotFound
  | SQLAlchemyError pystr

definition and_then :: "py_exc + 'a \<Rightarrow> ('a \<Rightarrow> py_exc + 'b) \<Rightarrow> py_exc + 'b" where
  "and_then m f = (case m of Inl e \<Rightarrow> Inl e | Inr v \<Rightarrow> f v)"

text \<open>\<open>data.get(key)\<close>: only a dict has the method; a missing key gives \<open>None\<close>.\<close>

fun dict_get :: "json \<Rightarrow> pystr \<Rightarrow> py_exc + json" where
  "dict_get (JObj kvs) k = Inr (case map_of kvs k of None \<Rightarrow> JNull | Some v \<Rightarrow> v)"
| "dict_get _ k = Inl AttributeError"

text \<open>\<open>sub in s\<close> on two strings: \<open>sub\<close> occurs in \<open>s\<close> as a contiguous run.\<close>

fun occurs_in :: "pystr \<Rightarrow> pystr \<Rightarrow> bool" where
  "occurs_in sub [] = (sub = [])"
| "occurs_in sub (c # cs) = (take (length sub) (c # cs) = sub \<or> occurs_in sub cs)"

text \<open>
  \<open>key in data\<close>, the key being a string: membership among the keys of a dict, among
  the elements of a list, substring test on a string, \<open>TypeError\<close> on anything else.
\<close>

fun contains :: "pystr \<Rightarrow> json \<Rightarrow> py_exc + bool" where
  "contains k (JObj kvs) = Inr (k \<in> set (map fst kvs))"
| "contains k (JArr xs) = Inr (JStr k \<in> set xs)"
| "contains k (JStr s) = Inr (occurs_in k s)"
| "contains k _ = Inl TypeError"

text \<open>\<open>data[key]\<close> with a string key: defined on a dict only.\<close>

fun getitem :: "json \<Rightarrow> pystr \<Rightarrow> py_exc + json" where
  "getitem (JObj kvs) k = (case map_of kvs k of None \<Rightarrow> Inl KeyError | Some v \<Rightarrow> Inr v)"
| "getitem _ k = Inl TypeError"

text \<open>\<open>value.strip()\<close>: only a string has the method.\<close>

fun str_strip :: "json \<Rightarrow> py_exc + pystr" where
  "str_strip (JStr s) = Inr (strip s)"
| "str_strip _ = Inl AttributeError"

section \<open>Timestamps\<close>

text \<open>A reading of \<open>datetime.now(timezone.utc)\<close>, by its fields.\<close>

record datetime =
  year :: nat
  month :: nat
  day :: nat
  hour :: nat
  minute :: nat
  second :: nat
  microsecond :: nat

definition valid_datetime :: "datetime \<Rightarrow> bool" where
  "valid_datetime t = (1 \<le> year t \<and> year t \<le> 9999 \<and> 1 \<le> month t \<and> month t \<le> 12
     \<and> 1 \<le> day t \<and> day t \<le> 31 \<and> hour t < 24 \<and> minute t < 60 \<and> second t < 60
     \<and> microsecond t < 1000000)"

text \<open>Decimal digits of a number, and zero padding on the left to a width.\<close>

fun dec :: "nat \<Rightarrow> pystr" where
  "dec n = (if n < 10 then [48 + n] else dec (n div 10) @ [48 + n mod 10])"

declare dec.simps [simp del]

definition zfill :: "nat \<Rightarrow> nat \<Rightarrow> pystr" where
  "zfill w n = replicate (w - length (dec n)) 48 @ dec n"

text \<open>
  The part both renderings share, \<open>%Y-%m-%dT%H:%M:%S\<close>, each field zero padded as the
  Python documentation gives it.
\<close>

definition date_time_part :: "datetime \<Rightarrow> pystr" where
  "date_time_part t = zfill 4 (year t) @ py ''-'' @ zfill 2 (month t) @ py ''-''
     @ zfill 2 (day t) @ py ''T'' @ zfill 2 (hour t) @ py '':'' @ zfill 2 (minute t)
     @ py '':'' @ zfill 2 (second t)"

text \<open>\<open>t.strftime('%Y-%m-%dT%H:%M:%S.%fZ')\<close>, the format string of \<open>to_dict\<close>.\<close>

definition strftime :: "datetime \<Rightarrow> pystr" where
  "strftime t = date_time_part t @ py ''.'' @ zfill 6 (microsecond t) @ py ''Z''"

text \<open>
  \<open>t.isoformat()\<close> of a datetime whose tzinfo is UTC: the fraction is left out when
  the microsecond field is zero, and the offset is written \<open>+00:00\<close>.
\<close>

definition isoformat :: "datetime \<Rightarrow> pystr" where
  "isoformat t = date_time_part t
     @ (if microsecond t = 0 then [] else py ''.'' @ zfill 6 (microsecond t))
     @ py ''+00:00''"

section \<open>The Record model\<close>

record Record =
  record_id :: nat
  name :: pystr
  message :: pystr
  note_text :: "pystr option"
  created_at :: "datetime option"
  updated_at :: "datetime option"

definition opt_str :: "pystr option \<Rightarrow> json" where
  "opt_str v = (case v of None \<Rightarrow> JNull | Some s \<Rightarrow> JStr s)"

definition opt_time :: "datetime option \<Rightarrow> json" where
  "opt_time v = (case v of None \<Rightarrow> JNull | Some t \<Rightarrow> JStr (strftime t))"

definition to_dict :: "Record \<Rightarrow> json" where
  "to_dict r = JObj
     [(py ''id'', JInt (int (record_id r))),
      (py ''name'', JStr (name r)),
      (py ''message'', JStr (message r)),
      (py ''note'', opt_str (note_text r)),
      (py ''createdAt'', opt_time (created_at r)),
      (py ''updatedAt'', opt_time (updated_at r))]"

text \<open>
  \<open>update_from_dict\<close>, statement by statement. Each of the three \<open>if\<close> statements
  may raise; the assignment of \<open>updated_at\<close> is reached only when none did.
\<close>

definition update_name :: "Record \<Rightarrow> json \<Rightarrow> py_exc + Record" where
  "update_name r data =
     and_then (contains (py ''name'') data) (\<lambda>present.
       if present then
         and_then (getitem data (py ''name'')) (\<lambda>v.
         and_then (str_strip v) (\<lambda>s.
           if s \<noteq> [] then Inr (r\<lparr>name := s\<rparr>) else Inr r))
       else Inr r)"

definition update_message :: "Record \<Rightarrow> json \<Rightarrow> py_exc + Record" where
  "update_message r data =
     and_then (contains (py ''message'') data) (\<lambda>present.
       if present then
         and_then (getitem data (py ''message'')) (\<lambda>v.
         and_then (str_strip v) (\<lambda>s.
           if s \<noteq> [] then Inr (r\<lparr>message := s\<rparr>) else Inr r))
       else Inr r)"

definition update_note :: "Record \<Rightarrow> json \<Rightarrow> py_exc + Record" where
  "update_note r data =
     and_then (contains (py ''note'') data) (\<lambda>present.
       if present then
         and_then (getitem data (py ''note'')) (\<lambda>v.
           if truthy v then and_then (str_strip v) (\<lambda>s. Inr (r\<lparr>note_text := Some s\<rparr>))
           else Inr (r\<lparr>note_text := None\<rparr>))
       else Inr r)"

definition update_from_dict :: "Record \<Rightarrow> json \<Rightarrow> datetime \<Rightarrow> py_exc + Record" where
  "update_from_dict r data now =
     and_then (update_name r data) (\<lambda>r1.
     and_then (update_message r1 data) (\<lambda>r2.
     and_then (update_note r2 data) (\<lambda>r3.
       Inr (r3\<lparr>updated_at := Some now\<rparr>))))"

section \<open>The store and the environment of one request\<close>

text \<open>
  The table \<open>records\<close> and the counter from which the storage engine takes the next
  primary key.
\<close>

record db =
  rows :: "Record list"
  next_id :: nat

text \<open>
  What a request takes from outside: the successive readings of
  \<open>datetime.now(timezone.utc)\<close> (\<open>clock e 0\<close> is the first), and whether the query or the
  commit raises \<open>SQLAlchemyError\<close>, with the error's text.
\<close>

record env =
  clock :: "nat \<Rightarrow> datetime"
  query_error :: "pystr option"
  commit_error :: "pystr option"

type_synonym response = "json \<times> nat"

definition error_body :: "pystr \<Rightarrow> json" where
  "error_body msg = JObj [(py ''error'', JStr msg)]"

definition not_found :: response where
  "not_found = (error_body (py ''Endpoint not found''), 404)"

definition internal_error :: response where
  "internal_error = (error_body (py ''Internal server error''), 500)"

text \<open>\<open>Record.query.get_or_404(record_id)\<close>.\<close>

definition get_or_404 :: "env \<Rightarrow> db \<Rightarrow> nat \<Rightarrow> py_exc + Record" where
  "get_or_404 e s i =
     (case query_error e of
        Some msg \<Rightarrow> Inl (SQLAlchemyError msg)
      | None \<Rightarrow>
          (case find (\<lambda>r. record_id r = i) (rows s) of
             None \<Rightarrow> Inl NotFound
           | Some r \<Rightarrow> Inr r))"

section \<open>The view functions\<close>

text \<open>
  A view returns its response and the store after it, or the exception that leaves
  it (\<open>Inl\<close>): one that no \<open>except\<close> clause of the view catches.
\<close>

definition get_records :: "env \<Rightarrow> db \<Rightarrow> py_exc + (response \<times> db)" where
  "get_records e s =
     (case query_error e of
        Some msg \<Rightarrow> Inr ((error_body msg, 500), s)
      | None \<Rightarrow>
          Inr ((JObj [(py ''records'', JArr (map to_dict (rows s))),
                      (py ''total'', JInt (int (length (rows s))))], 200), s))"

text \<open>
  The keyword arguments of \<open>Record(...)\<close> in \<open>create_record\<close>, evaluated in order.
  The two column defaults read the clock one after the other at the insert.
\<close>

definition new_record :: "env \<Rightarrow> db \<Rightarrow> json \<Rightarrow> json \<Rightarrow> json \<Rightarrow> py_exc + Record" where
  "new_record e s n m nt =
     and_then (str_strip n) (\<lambda>nm.
     and_then (str_strip m) (\<lambda>msg.
     and_then (if truthy nt then and_then (str_strip nt) (\<lambda>x. Inr (Some x)) else Inr None)
       (\<lambda>no.
         Inr \<lparr>record_id = next_id s, name = nm, message = msg, note_text = no,
              created_at = Some (clock e 0), updated_at = Some (clock e 1)\<rparr>)))"

definition create_record :: "env \<Rightarrow> db \<Rightarrow> json \<Rightarrow> py_exc + (response \<times> db)" where
  "create_record e s data =
     (let required = (error_body (py ''Name and message are required''), 400) in
      if \<not> truthy data then Inr (required, s)
      else
        and_then (dict_get data (py ''name'')) (\<lambda>n.
          if \<not> truthy n then Inr (required, s)
          else
            and_then (dict_get data (py ''message'')) (\<lambda>m.
              if \<not> truthy m then Inr (required, s)
              else
                and_then (dict_get data (py ''note'')) (\<lambda>nt.
                and_then (new_record e s n m nt) (\<lambda>r.
                  (case commit_error e of
                     Some msg \<Rightarrow> Inr ((error_body msg, 500), s)
                   | None \<Rightarrow>
                       Inr ((to_dict r, 201),
                            s\<lparr>rows := rows s @ [r], next_id := Suc (next_id s)\<rparr>)))))))"

definition health_check :: "env \<Rightarrow> db \<Rightarrow> py_exc + (response \<times> db)" where
  "health_check e s =
     Inr ((JObj [(py ''status'', JStr (py ''OK'')),
                 (py ''message'', JStr (py ''Flask API is running'')),
                 (py ''timestamp'', JStr (isoformat (clock e 0)))], 200), s)"

definition update_record :: "env \<Rightarrow> db \<Rightarrow> nat \<Rightarrow> json \<Rightarrow> py_exc + (response \<times> db)" where
  "update_record e s i data =
     (case get_or_404 e s i of
        Inl (SQLAlchemyError msg) \<Rightarrow>
          Inr ((error_body (py ''Failed to update record: '' @ msg), 500), s)
      | Inl ex \<Rightarrow> Inl ex
      | Inr r \<Rightarrow>
          if \<not> truthy data then Inr ((error_body (py ''No data provided''), 400), s)
          else
            and_then (update_from_dict r data (clock e 0)) (\<lambda>r'.
              (case commit_error e of
                 Some msg \<Rightarrow>
                   Inr ((error_body (py ''Failed to update record: '' @ msg), 500), s)
               | None \<Rightarrow>
                   Inr ((JObj [(py ''message'', JStr (py ''Record updated successfully'')),
                               (py ''record'', to_dict r')], 200),
                        s\<lparr>rows := map (\<lambda>x. if record_id x = i then r' else x) (rows s)\<rparr>))))"

definition delete_record :: "env \<Rightarrow> db \<Rightarrow> nat \<Rightarrow> py_exc + (response \<times> db)" where
  "delete_record e s i =
     (case get_or_404 e s i of
        Inl (SQLAlchemyError msg) \<Rightarrow>
          Inr ((error_body (py ''Failed to delete record: '' @ msg), 500), s)
      | Inl ex \<Rightarrow> Inl ex
      | Inr r \<Rightarrow>
          (case commit_error e of
             Some msg \<Rightarrow>
               Inr ((error_body (py ''Failed to delete record: '' @ msg), 500), s)
           | None \<Rightarrow>
               Inr ((JObj [(py ''message'', JStr (py ''Record deleted successfully''))], 200),
                    s\<lparr>rows := filter (\<lambda>x. record_id x \<noteq> i) (rows s)\<rparr>)))"

section \<open>Routing and the error handlers\<close>

text \<open>
  The routes of the application; \<open>Unrouted\<close> is any method and path that no route
  matches. The converter \<open>int\<close> of the two record routes accepts natural numbers only.
\<close>

datatype request =
    GET_records
  | POST_records json
  | GET_root
  | PUT_record nat json
  | DELETE_record nat
  | Unrouted

text \<open>
  An exception that leaves a view goes to the registered error handler: \<open>NotFound\<close>
  to \<open>not_found\<close>, any other to \<open>internal_error\<close>. Nothing was committed, so the store
  is the one before the request.
\<close>

definition dispatch :: "db \<Rightarrow> py_exc + (response \<times> db) \<Rightarrow> response \<times> db" where
  "dispatch s res =
     (case res of
        Inr out \<Rightarrow> out
      | Inl NotFound \<Rightarrow> (not_found, s)
      | Inl _ \<Rightarrow> (internal_error, s))"

fun handle :: "env \<Rightarrow> db \<Rightarrow> request \<Rightarrow> response \<times> db" where
  "handle e s GET_records = dispatch s (get_records e s)"
| "handle e s (POST_records data) = dispatch s (create_record e s data)"
| "handle e s GET_root = dispatch s (health_check e s)"
| "handle e s (PUT_record i data) = dispatch s (update_record e s i data)"
| "handle e s (DELETE_record i) = dispatch s (delete_record e s i)"
| "handle e s Unrouted = dispatch s (Inl NotFound)"

section \<open>Vocabulary of the properties\<close>

text \<open>Reading one member of a JSON object in a response body.\<close>

fun field :: "json \<Rightarrow> pystr \<Rightarrow> json option" where
  "field (JObj kvs) k = map_of kvs k"
| "field _ k = None"

text \<open>Concrete clock readings, environments and stores on which the properties are run.\<close>

definition t0 :: datetime where
  "t0 = \<lparr>year = 2024, month = 5, day = 16, hour = 23, minute = 59, second = 7,
     microsecond = 0\<rparr>"

definition t1 :: datetime where
  "t1 = \<lparr>year = 2024, month = 5, day = 17, hour = 9, minute = 30, second = 15,
     microsecond = 1\<rparr>"

definition t2 :: datetime where
  "t2 = \<lparr>year = 2024, month = 5, day = 17, hour = 9, minute = 30, second = 15,
     microsecond = 2\<rparr>"

definition env_ok :: env where
  "env_ok = \<lparr>clock = (\<lambda>k. if k = 0 then t1 else t2), query_error = None,
     commit_error = None\<rparr>"

definition empty_db :: db where
  "empty_db = \<lparr>rows = [], next_id = 1\<rparr>"

definition ann :: Record where
  "ann = \<lparr>record_id = 1, name = py ''Ann'', message = py ''hi'',
     note_text = Some (py ''old''), created_at = Some t0, updated_at = Some t0\<rparr>"

definition one_db :: db where
  "one_db = \<lparr>rows = [ann], next_id = 2\<rparr>"

text \<open>
  Empty after trimming surrounding whitespace; the invariant that no stored record
  has such a name or message.
\<close>

definition blank :: "pystr \<Rightarrow> bool" where
  "blank s = (strip s = [])"

definition record_inv :: "Record \<Rightarrow> bool" where
  "record_inv r = (\<not> blank (name r) \<and> \<not> blank (message r))"

definition store_inv :: "db \<Rightarrow> bool" where
  "store_inv s = list_all record_inv (rows s)"

text \<open>
  A partial-update input with the field types of the data model: \<open>name\<close> and
  \<open>message\<close>, where present, are strings; \<open>note\<close>, where present, is a string or null.
\<close>

fun is_str :: "json \<Rightarrow> bool" where
  "is_str (JStr s) = True"
| "is_str _ = False"

definition partial_update_input :: "(pystr \<times> json) list \<Rightarrow> bool" where
  "partial_update_input kvs =
     ((case map_of kvs (py ''name'') of None \<Rightarrow> True | Some v \<Rightarrow> is_str v)
      \<and> (case map_of kvs (py ''message'') of None \<Rightarrow> True | Some v \<Rightarrow> is_str v)
      \<and> (case map_of kvs (py ''note'') of None \<Rightarrow> True | Some v \<Rightarrow> is_str v \<or> v = JNull))"

text \<open>The key is present and maps to a string that is empty after trimming.\<close>

definition blank_at :: "(pystr \<times> json) list \<Rightarrow> pystr \<Rightarrow> bool" where
  "blank_at kvs k = (case map_of kvs k of Some (JStr x) \<Rightarrow> blank x | _ \<Rightarrow> False)"

text \<open>
  What \<open>update_from_dict\<close> leaves in a text field and in the note on such an input,
  read off the three \<open>if\<close> statements; the lemmas below prove that it does.
\<close>

definition text_after :: "(pystr \<times> json) list \<Rightarrow> pystr \<Rightarrow> pystr \<Rightarrow> pystr" where
  "text_after kvs k old =
     (case map_of kvs k of
        Some (JStr x) \<Rightarrow> if strip x \<noteq> [] then strip x else old
      | _ \<Rightarrow> old)"

definition note_after :: "(pystr \<times> json) list \<Rightarrow> pystr option \<Rightarrow> pystr option" where
  "note_after kvs old =
     (case map_of kvs (py ''note'') of
        None \<Rightarrow> old
      | Some (JStr x) \<Rightarrow> if x \<noteq> [] then Some (strip x) else None
      | Some _ \<Rightarrow> None)"

text \<open>
  The textual formats of the specification: in a format the letters \<open>Y M D H S f\<close>
  stand for one decimal digit each, every other character for itself.
\<close>

datatype pat = Digit | Lit nat

definition is_digit :: "nat \<Rightarrow> bool" where
  "is_digit c = (48 \<le> c \<and> c \<le> 57)"

fun pat_ok :: "pat \<Rightarrow> nat \<Rightarrow> bool" where
  "pat_ok Digit c = is_digit c"
| "pat_ok (Lit l) c = (c = l)"

definition matches :: "pat list \<Rightarrow> pystr \<Rightarrow> bool" where
  "matches ps s = list_all2 pat_ok ps s"

definition pattern_of :: "string \<Rightarrow> pat list" where
  "pattern_of f = map (\<lambda>c. if c \<in> set ''YMDHSf'' then Digit else Lit (of_char c)) f"

definition zulu_format :: "pat list" where
  "zulu_format = pattern_of ''YYYY-MM-DDTHH:MM:SS.ffffffZ''"

definition offset_format :: "pat list" where
  "offset_format = pattern_of ''YYYY-MM-DDTHH:MM:SS.ffffff+00:00''"

definition offset_format_short :: "pat list" where
  "offset_format_short = pattern_of ''YYYY-MM-DDTHH:MM:SS+00:00''"

text \<open>Request bodies on which the properties are run.\<close>

definition blank_name_payload :: json where
  "blank_name_payload =
     JObj [(py ''name'', JStr (py ''   '')), (py ''message'', JStr (py ''hello''))]"

definition blank_note_payload :: json where
  "blank_note_payload =
     JObj [(py ''name'', JStr (py ''A'')), (py ''message'', JStr (py ''B'')),
           (py ''note'', JStr (py ''   ''))]"

definition blank_fields_payload :: "(pystr \<times> json) list" where
  "blank_fields_payload = [(py ''name'', JStr (py ''  '')), (py ''message'', JStr [])]"

definition valid_payload :: "(pystr \<times> json) list" where
  "valid_payload = [(py ''name'', JStr (py '' A '')), (py ''message'', JStr (py ''B''))]"

lemmas run_simps = py_def strip_def isspace_def and_then_def error_body_def dispatch_def

section \<open>Unknown record ids\<close>

lemma get_or_404_missing:
  "query_error e = None \<Longrightarrow> find (\<lambda>r. record_id r = i) (rows s) = None
   \<Longrightarrow> get_or_404 e s i = Inl NotFound"
  by (simp add: get_or_404_def)

text \<open>
  C9. When the lookup runs and finds no record with the id of the request, both
  \<open>update_record\<close> and \<open>delete_record\<close> raise \<open>NotFound\<close>; the response has status 404
  and the store after the request is the store before it.
\<close>

theorem missing_id_is_404:
  assumes "query_error e = None" and "find (\<lambda>r. record_id r = i) (rows s) = None"
  shows "update_record e s i data = Inl NotFound \<and> delete_record e s i = Inl NotFound
    \<and> snd (fst (handle e s (PUT_record i data))) = 404
    \<and> snd (handle e s (PUT_record i data)) = s
    \<and> snd (fst (handle e s (DELETE_record i))) = 404
    \<and> snd (handle e s (DELETE_record i)) = s"
proof -
  have g: "get_or_404 e s i = Inl NotFound"
    using assms by (rule get_or_404_missing)
  have u: "update_record e s i data = Inl NotFound"
    by (simp add: update_record_def g)
  have d: "delete_record e s i = Inl NotFound"
    by (simp add: delete_record_def g)
  show ?thesis
    by (simp add: u d dispatch_def not_found_def)
qed

theorem missing_id_is_404_witness:
  "query_error env_ok = None \<and> find (\<lambda>r. record_id r = 7) (rows one_db) = None
   \<and> snd (fst (handle env_ok one_db (PUT_record 7 (JObj [(py ''name'', JStr (py ''Bob''))])))) = 404
   \<and> snd (handle env_ok one_db (PUT_record 7 (JObj [(py ''name'', JStr (py ''Bob''))]))) = one_db
   \<and> snd (fst (handle env_ok one_db (DELETE_record 7))) = 404
   \<and> snd (handle env_ok one_db (DELETE_record 7)) = one_db"
proof -
  have h1: "query_error env_ok = None"
    by (simp add: env_ok_def)
  have h2: "find (\<lambda>r. record_id r = 7) (rows one_db) = None"
    by (simp add: one_db_def ann_def)
  from missing_id_is_404 [OF h1 h2] h1 h2 show ?thesis
    by blast
qed

text \<open>
  C10. The body of that 404 response is the object whose only member \<open>error\<close> is
  \<open>Endpoint not found\<close>: what the handler \<open>not_found\<close> answers, for an update, for a
  delete and for a request that no route matches alike.
\<close>

theorem missing_id_body:
  assumes "query_error e = None" and "find (\<lambda>r. record_id r = i) (rows s) = None"
  shows "fst (handle e s (PUT_record i data))
      = (JObj [(py ''error'', JStr (py ''Endpoint not found''))], 404)
    \<and> fst (handle e s (DELETE_record i))
      = (JObj [(py ''error'', JStr (py ''Endpoint not found''))], 404)
    \<and> fst (handle e s Unrouted)
      = (JObj [(py ''error'', JStr (py ''Endpoint not found''))], 404)"
proof -
  have g: "get_or_404 e s i = Inl NotFound"
    using assms by (rule get_or_404_missing)
  show ?thesis
    by (simp add: update_record_def delete_record_def g dispatch_def not_found_def
        error_body_def)
qed

theorem missing_id_body_witness:
  "query_error env_ok = None \<and> find (\<lambda>r. record_id r = 7) (rows one_db) = None
   \<and> fst (handle env_ok one_db (PUT_record 7 JNull))
      = (JObj [(py ''error'', JStr (py ''Endpoint not found''))], 404)
   \<and> fst (handle env_ok one_db (DELETE_record 7)) = fst (handle env_ok one_db Unrouted)"
proof -
  have h1: "query_error env_ok = None"
    by (simp add: env_ok_def)
  have h2: "find (\<lambda>r. record_id r = 7) (rows one_db) = None"
    by (simp add: one_db_def ann_def)
  from missing_id_body [OF h1 h2] h1 h2 show ?thesis
    by simp
qed

section \<open>Blank names, messages and notes\<close>

text \<open>
  C1. A create request whose name is whitespace only (so empty after trimming) and
  whose message is valid is not rejected: \<open>create_record\<close> tests the truth value of the
  untrimmed name, answers 201 and appends a record whose name is the empty string.
\<close>

theorem create_blank_name_is_stored:
  "blank (py ''   '')
   \<and> snd (fst (handle (e\<lparr>commit_error := None\<rparr>) s (POST_records blank_name_payload))) = 201
   \<and> map name (rows (snd (handle (e\<lparr>commit_error := None\<rparr>) s
        (POST_records blank_name_payload))))
      = map name (rows s) @ [[]]"
  by (simp add: blank_def blank_name_payload_def create_record_def new_record_def run_simps)

text \<open>
  C2. The invariant holds of the empty store and fails after one successful create:
  the request with a whitespace-only name leaves a record with an empty name.
\<close>

theorem create_breaks_invariant:
  "store_inv empty_db
   \<and> \<not> store_inv (snd (handle env_ok empty_db (POST_records blank_name_payload)))"
  by (simp add: store_inv_def record_inv_def blank_def empty_db_def env_ok_def
      blank_name_payload_def create_record_def new_record_def run_simps)

text \<open>
  C4. A partial update whose note is whitespace only does not clear the note:
  \<open>update_from_dict\<close> tests the truth value of the untrimmed note and stores the
  trimmed one, the empty string.
\<close>

theorem update_blank_note_is_stored:
  "blank (py ''   '')
   \<and> update_from_dict r (JObj [(py ''note'', JStr (py ''   ''))]) now
      = Inr (r\<lparr>note_text := Some [], updated_at := Some now\<rparr>)"
  by (simp add: blank_def update_from_dict_def update_name_def update_message_def
      update_note_def run_simps)

text \<open>
  C5. A create request with valid name and message and a whitespace-only note stores
  the empty string as the note, and answers it, where null is expected.
\<close>

theorem create_blank_note_is_stored:
  "blank (py ''   '')
   \<and> field (fst (fst (handle (e\<lparr>commit_error := None\<rparr>) s (POST_records blank_note_payload))))
        (py ''note'') = Some (JStr [])
   \<and> map note_text (rows (snd (handle (e\<lparr>commit_error := None\<rparr>) s
        (POST_records blank_note_payload))))
      = map note_text (rows s) @ [Some []]"
  by (simp add: blank_def blank_note_payload_def create_record_def new_record_def to_dict_def
      opt_str_def run_simps)

section \<open>Updates and deletes keep the invariant\<close>

lemma dropWhile_rev_stable:
  "dropWhile P xs = xs \<Longrightarrow>
   dropWhile P (rev (dropWhile P (rev xs))) = rev (dropWhile P (rev xs))"
proof (cases xs)
  case Nil
  then show ?thesis by simp
next
  case (Cons x ys)
  assume "dropWhile P xs = xs"
  then have "xs = [] \<or> \<not> P (hd xs)"
    by (simp only: dropWhile_eq_self_iff)
  with Cons have nx: "\<not> P x"
    by simp
  have "dropWhile P (rev xs) = dropWhile P (rev ys) @ [x]"
    using Cons nx by (simp add: dropWhile_append3)
  then show ?thesis using nx by simp
qed

lemma strip_idem: "strip (strip s) = strip s"
proof -
  have "dropWhile isspace (dropWhile isspace s) = dropWhile isspace s"
    by (rule dropWhile_idem)
  then have "dropWhile isspace (strip s) = strip s"
    unfolding strip_def by (rule dropWhile_rev_stable)
  then show ?thesis
    by (simp add: strip_def [of "strip s"]) (simp add: strip_def)
qed

lemma update_name_inv:
  "update_name r data = Inr r' \<Longrightarrow> record_inv r \<Longrightarrow> record_inv r'"
  by (auto simp: update_name_def and_then_def record_inv_def blank_def strip_idem
      split: sum.splits if_splits elim!: str_strip.elims)

lemma update_message_inv:
  "update_message r data = Inr r' \<Longrightarrow> record_inv r \<Longrightarrow> record_inv r'"
  by (auto simp: update_message_def and_then_def record_inv_def blank_def strip_idem
      split: sum.splits if_splits elim!: str_strip.elims)

lemma update_note_inv:
  "update_note r data = Inr r' \<Longrightarrow> record_inv r \<Longrightarrow> record_inv r'"
  by (auto simp: update_note_def and_then_def record_inv_def
      split: sum.splits if_splits)

lemma update_from_dict_inv:
  "update_from_dict r data now = Inr r' \<Longrightarrow> record_inv r \<Longrightarrow> record_inv r'"
  by (auto simp: update_from_dict_def and_then_def record_inv_def
      split: sum.splits dest!: update_name_inv update_message_inv update_note_inv)

lemma get_or_404_inv:
  "get_or_404 e s i = Inr r \<Longrightarrow> store_inv s \<Longrightarrow> record_inv r"
  by (auto simp: get_or_404_def store_inv_def list_all_iff find_Some_iff
      split: option.splits)

lemma update_record_inv:
  assumes "store_inv s"
  shows "store_inv (snd (handle e s (PUT_record i data)))"
proof (cases "get_or_404 e s i")
  case (Inl ex)
  then show ?thesis using assms
    by (cases ex) (simp_all add: update_record_def dispatch_def)
next
  case (Inr r)
  then have r: "record_inv r" using assms by (rule get_or_404_inv)
  show ?thesis
  proof (cases "update_from_dict r data (clock e 0)")
    case (Inl ex)
    then show ?thesis using Inr assms
      by (cases ex) (simp_all add: update_record_def dispatch_def and_then_def)
  next
    case (Inr r')
    then have "record_inv r'" using r by (rule update_from_dict_inv)
    then show ?thesis using Inr \<open>get_or_404 e s i = Inr r\<close> assms
      by (auto simp: update_record_def dispatch_def and_then_def store_inv_def list_all_iff
          split: option.splits)
  qed
qed

lemma delete_record_inv:
  assumes "store_inv s"
  shows "store_inv (snd (handle e s (DELETE_record i)))"
proof (cases "get_or_404 e s i")
  case (Inl ex)
  then show ?thesis using assms
    by (cases ex) (simp_all add: delete_record_def dispatch_def)
next
  case (Inr r)
  then show ?thesis using assms
    by (auto simp: delete_record_def dispatch_def store_inv_def list_all_iff
        split: option.splits)
qed

section \<open>Partial updates on well-typed mappings\<close>

lemma contains_dict: "contains k (JObj kvs) = Inr (map_of kvs k \<noteq> None)"
  by (simp add: map_of_eq_None_iff)

lemma update_name_dict:
  assumes "case map_of kvs (py ''name'') of None \<Rightarrow> True | Some v \<Rightarrow> is_str v"
  shows "update_name r (JObj kvs) = Inr (r\<lparr>name := text_after kvs (py ''name'') (name r)\<rparr>)"
proof (cases "map_of kvs (py ''name'')")
  case None
  then show ?thesis
    by (simp add: update_name_def contains_dict and_then_def text_after_def
        del: contains.simps)
next
  case (Some v)
  with assms obtain x where "v = JStr x" by (cases v) simp_all
  with Some show ?thesis
    by (simp add: update_name_def contains_dict and_then_def text_after_def
        del: contains.simps)
qed

lemma update_message_dict:
  assumes "case map_of kvs (py ''message'') of None \<Rightarrow> True | Some v \<Rightarrow> is_str v"
  shows "update_message r (JObj kvs)
    = Inr (r\<lparr>message := text_after kvs (py ''message'') (message r)\<rparr>)"
proof (cases "map_of kvs (py ''message'')")
  case None
  then show ?thesis
    by (simp add: update_message_def contains_dict and_then_def text_after_def
        del: contains.simps)
next
  case (Some v)
  with assms obtain x where "v = JStr x" by (cases v) simp_all
  with Some show ?thesis
    by (simp add: update_message_def contains_dict and_then_def text_after_def
        del: contains.simps)
qed

lemma update_note_dict:
  assumes "case map_of kvs (py ''note'') of None \<Rightarrow> True | Some v \<Rightarrow> is_str v \<or> v = JNull"
  shows "update_note r (JObj kvs) = Inr (r\<lparr>note_text := note_after kvs (note_text r)\<rparr>)"
proof (cases "map_of kvs (py ''note'')")
  case None
  then show ?thesis
    by (simp add: update_note_def contains_dict and_then_def note_after_def
        del: contains.simps)
next
  case (Some v)
  with assms consider x where "v = JStr x" | "v = JNull" by (cases v) simp_all
  then show ?thesis
  proof cases
    case 1
    with Some show ?thesis
      by (simp add: update_note_def contains_dict and_then_def note_after_def
          del: contains.simps)
  next
    case 2
    with Some show ?thesis
      by (simp add: update_note_def contains_dict and_then_def note_after_def
          del: contains.simps)
  qed
qed

lemma update_from_dict_on_input:
  assumes "partial_update_input kvs"
  shows "update_from_dict r (JObj kvs) now
    = Inr (r\<lparr>name := text_after kvs (py ''name'') (name r),
             message := text_after kvs (py ''message'') (message r),
             note_text := note_after kvs (note_text r),
             updated_at := Some now\<rparr>)"
proof -
  from assms have n: "case map_of kvs (py ''name'') of None \<Rightarrow> True | Some v \<Rightarrow> is_str v"
    and m: "case map_of kvs (py ''message'') of None \<Rightarrow> True | Some v \<Rightarrow> is_str v"
    and t: "case map_of kvs (py ''note'') of None \<Rightarrow> True | Some v \<Rightarrow> is_str v \<or> v = JNull"
    by (simp_all add: partial_update_input_def)
  show ?thesis
    by (simp add: update_from_dict_def update_name_dict [OF n] update_message_dict [OF m]
        update_note_dict [OF t] and_then_def)
qed

lemma find_replaced:
  "find (\<lambda>x. record_id x = i) rs = Some r \<Longrightarrow> record_id r' = i \<Longrightarrow>
   find (\<lambda>x. record_id x = i) (map (\<lambda>x. if record_id x = i then r' else x) rs) = Some r'"
  by (induction rs) (auto split: if_splits)

lemma get_or_404_found:
  "query_error e = None \<Longrightarrow> find (\<lambda>x. record_id x = i) (rows s) = Some r \<Longrightarrow>
   get_or_404 e s i = Inr r"
  by (simp add: get_or_404_def)

lemma find_id: "find (\<lambda>x. record_id x = i) rs = Some r \<Longrightarrow> record_id r = i"
  by (auto simp: find_Some_iff)

lemma text_after_blank: "blank_at kvs k \<Longrightarrow> text_after kvs k old = old"
  by (auto simp: blank_at_def text_after_def blank_def split: option.splits json.splits)

text \<open>
  C3. On an existing record, with the storage working, a partial update whose name or
  message is present and blank succeeds with status 200; the stored record keeps the
  previous value of each blank field, and its \<open>updated_at\<close> is the clock reading of
  the request.
\<close>

theorem update_blank_field_kept:
  assumes "find (\<lambda>x. record_id x = i) (rows s) = Some r"
    and "query_error e = None" and "commit_error e = None"
    and "partial_update_input kvs"
    and "blank_at kvs (py ''name'') \<or> blank_at kvs (py ''message'')"
  shows "\<exists>r'. handle e s (PUT_record i (JObj kvs))
        = ((JObj [(py ''message'', JStr (py ''Record updated successfully'')),
                  (py ''record'', to_dict r')], 200),
           s\<lparr>rows := map (\<lambda>x. if record_id x = i then r' else x) (rows s)\<rparr>)
     \<and> find (\<lambda>x. record_id x = i) (rows (snd (handle e s (PUT_record i (JObj kvs)))))
        = Some r'
     \<and> (blank_at kvs (py ''name'') \<longrightarrow> name r' = name r)
     \<and> (blank_at kvs (py ''message'') \<longrightarrow> message r' = message r)
     \<and> updated_at r' = Some (clock e 0)"
proof -
  let ?r' = "r\<lparr>name := text_after kvs (py ''name'') (name r),
             message := text_after kvs (py ''message'') (message r),
             note_text := note_after kvs (note_text r),
             updated_at := Some (clock e 0)\<rparr>"
  have g: "get_or_404 e s i = Inr r"
    using assms(2) assms(1) by (rule get_or_404_found)
  have u: "update_from_dict r (JObj kvs) (clock e 0) = Inr ?r'"
    using assms(4) by (rule update_from_dict_on_input)
  have ne: "kvs \<noteq> []"
    using assms(5) by (auto simp: blank_at_def)
  have id: "record_id ?r' = i"
    using find_id [OF assms(1)] by simp
  have out: "handle e s (PUT_record i (JObj kvs))
        = ((JObj [(py ''message'', JStr (py ''Record updated successfully'')),
                  (py ''record'', to_dict ?r')], 200),
           s\<lparr>rows := map (\<lambda>x. if record_id x = i then ?r' else x) (rows s)\<rparr>)"
    by (simp add: update_record_def g u ne assms(3) and_then_def dispatch_def)
  have f: "find (\<lambda>x. record_id x = i) (rows (snd (handle e s (PUT_record i (JObj kvs)))))
      = Some ?r'"
    unfolding out using find_replaced [OF assms(1) id] by simp
  have n: "blank_at kvs (py ''name'') \<longrightarrow> name ?r' = name r"
    by (simp add: text_after_blank)
  have m: "blank_at kvs (py ''message'') \<longrightarrow> message ?r' = message r"
    by (simp add: text_after_blank)
  have t: "updated_at ?r' = Some (clock e 0)"
    by simp
  from out f n m t show ?thesis
    by blast
qed

theorem update_blank_field_kept_witness:
  "find (\<lambda>x. record_id x = 1) (rows one_db) = Some ann
   \<and> partial_update_input blank_fields_payload
   \<and> blank_at blank_fields_payload (py ''name'')
   \<and> blank_at blank_fields_payload (py ''message'')
   \<and> snd (fst (handle env_ok one_db (PUT_record 1 (JObj blank_fields_payload)))) = 200
   \<and> map name (rows (snd (handle env_ok one_db (PUT_record 1 (JObj blank_fields_payload)))))
      = [py ''Ann'']
   \<and> map message (rows (snd (handle env_ok one_db (PUT_record 1 (JObj blank_fields_payload)))))
      = [py ''hi'']
   \<and> map updated_at (rows (snd (handle env_ok one_db
        (PUT_record 1 (JObj blank_fields_payload))))) = [Some t1]"
proof -
  have h1: "find (\<lambda>x. record_id x = 1) (rows one_db) = Some ann"
    by (simp add: one_db_def ann_def)
  have h2: "query_error env_ok = None" and h3: "commit_error env_ok = None"
    by (simp_all add: env_ok_def)
  have h4: "partial_update_input blank_fields_payload"
    by (simp add: partial_update_input_def blank_fields_payload_def py_def)
  have b1: "blank_at blank_fields_payload (py ''name'')"
    by (simp add: blank_at_def blank_def blank_fields_payload_def run_simps)
  have b2: "blank_at blank_fields_payload (py ''message'')"
    by (simp add: blank_at_def blank_def blank_fields_payload_def run_simps)
  from b1 have h5: "blank_at blank_fields_payload (py ''name'')
      \<or> blank_at blank_fields_payload (py ''message'')"
    by simp
  from update_blank_field_kept [OF h1 h2 h3 h4 h5] b1 b2
  obtain r' where out: "handle env_ok one_db (PUT_record 1 (JObj blank_fields_payload))
        = ((JObj [(py ''message'', JStr (py ''Record updated successfully'')),
                  (py ''record'', to_dict r')], 200),
           one_db\<lparr>rows := map (\<lambda>x. if record_id x = 1 then r' else x) (rows one_db)\<rparr>)"
    and n: "name r' = name ann" and m: "message r' = message ann"
    and t: "updated_at r' = Some (clock env_ok 0)"
    by blast
  have "snd (fst (handle env_ok one_db (PUT_record 1 (JObj blank_fields_payload)))) = 200"
    unfolding out by simp
  moreover have "map name (rows (snd (handle env_ok one_db
      (PUT_record 1 (JObj blank_fields_payload))))) = [py ''Ann'']"
    unfolding out by (simp add: one_db_def ann_def n)
  moreover have "map message (rows (snd (handle env_ok one_db
      (PUT_record 1 (JObj blank_fields_payload))))) = [py ''hi'']"
    unfolding out by (simp add: one_db_def ann_def m)
  moreover have "map updated_at (rows (snd (handle env_ok one_db
      (PUT_record 1 (JObj blank_fields_payload))))) = [Some t1]"
    unfolding out by (simp add: one_db_def ann_def t env_ok_def)
  ultimately show ?thesis using h1 h4 b1 b2
    by blast
qed

section \<open>Timestamps of a created record\<close>

lemma blank_Nil: "blank []"
  by (simp add: blank_def strip_def)

lemma strftime_t1: "strftime t1 = py ''2024-05-17T09:30:15.000001Z''"
  by code_simp

lemma strftime_t2: "strftime t2 = py ''2024-05-17T09:30:15.000002Z''"
  by code_simp

lemma create_valid_payload:
  "handle env_ok empty_db (POST_records (JObj valid_payload))
   = ((to_dict \<lparr>record_id = 1, name = py ''A'', message = py ''B'', note_text = None,
                created_at = Some t1, updated_at = Some t2\<rparr>, 201),
      \<lparr>rows = [\<lparr>record_id = 1, name = py ''A'', message = py ''B'', note_text = None,
                created_at = Some t1, updated_at = Some t2\<rparr>], next_id = 2\<rparr>)"
  by (simp add: valid_payload_def env_ok_def empty_db_def create_record_def
      new_record_def run_simps)

text \<open>
  C6, as stated, fails: the two column defaults read the clock one after the other,
  and when the clock moves between the readings the created record is answered with
  status 201 and a \<open>createdAt\<close> that differs from its \<open>updatedAt\<close>.
\<close>

theorem create_timestamps_differ:
  "snd (fst (handle env_ok empty_db (POST_records (JObj valid_payload)))) = 201
   \<and> field (fst (fst (handle env_ok empty_db (POST_records (JObj valid_payload)))))
        (py ''createdAt'') = Some (JStr (py ''2024-05-17T09:30:15.000001Z''))
   \<and> field (fst (fst (handle env_ok empty_db (POST_records (JObj valid_payload)))))
        (py ''updatedAt'') = Some (JStr (py ''2024-05-17T09:30:15.000002Z''))
   \<and> field (fst (fst (handle env_ok empty_db (POST_records (JObj valid_payload)))))
        (py ''createdAt'')
      \<noteq> field (fst (fst (handle env_ok empty_db (POST_records (JObj valid_payload)))))
        (py ''updatedAt'')"
  unfolding create_valid_payload
  by (simp add: to_dict_def opt_time_def strftime_t1 strftime_t2 py_def)

text \<open>
  C6, amended. A create request with valid name and message and no note, the commit
  succeeding, is answered with status 201 and a null note; \<open>createdAt\<close> renders the
  first clock reading of the insert and \<open>updatedAt\<close> the second, so the two are equal
  when the readings coincide.
\<close>

theorem create_without_note:
  assumes "map_of kvs (py ''name'') = Some (JStr n)" and "\<not> blank n"
    and "map_of kvs (py ''message'') = Some (JStr m)" and "\<not> blank m"
    and "map_of kvs (py ''note'') = None"
    and "commit_error e = None"
  shows "snd (fst (handle e s (POST_records (JObj kvs)))) = 201
     \<and> field (fst (fst (handle e s (POST_records (JObj kvs))))) (py ''note'') = Some JNull
     \<and> field (fst (fst (handle e s (POST_records (JObj kvs))))) (py ''createdAt'')
        = Some (JStr (strftime (clock e 0)))
     \<and> field (fst (fst (handle e s (POST_records (JObj kvs))))) (py ''updatedAt'')
        = Some (JStr (strftime (clock e 1)))
     \<and> (clock e 0 = clock e 1 \<longrightarrow>
          field (fst (fst (handle e s (POST_records (JObj kvs))))) (py ''createdAt'')
          = field (fst (fst (handle e s (POST_records (JObj kvs))))) (py ''updatedAt''))"
proof -
  have ne: "kvs \<noteq> []"
    using assms(1) by auto
  have n: "n \<noteq> []" and m: "m \<noteq> []"
    using assms(2) assms(4) blank_Nil by auto
  let ?r = "\<lparr>record_id = next_id s, name = strip n, message = strip m, note_text = None,
              created_at = Some (clock e 0), updated_at = Some (clock e 1)\<rparr>"
  have out: "handle e s (POST_records (JObj kvs))
      = ((to_dict ?r, 201), s\<lparr>rows := rows s @ [?r], next_id := Suc (next_id s)\<rparr>)"
    by (simp add: create_record_def new_record_def and_then_def dispatch_def ne n m assms(1)
        assms(3) assms(5) assms(6))
  show ?thesis
    unfolding out by (simp add: to_dict_def opt_str_def opt_time_def py_def)
qed

theorem create_without_note_witness:
  "\<not> blank (py '' A '') \<and> \<not> blank (py ''B'')
   \<and> snd (fst (handle env_ok one_db (POST_records (JObj valid_payload)))) = 201
   \<and> field (fst (fst (handle env_ok one_db (POST_records (JObj valid_payload))))) (py ''note'')
      = Some JNull
   \<and> field (fst (fst (handle env_ok one_db (POST_records (JObj valid_payload))))) (py ''createdAt'')
      = Some (JStr (strftime t1))
   \<and> field (fst (fst (handle env_ok one_db (POST_records (JObj valid_payload))))) (py ''updatedAt'')
      = Some (JStr (strftime t2))"
proof -
  have h1: "map_of valid_payload (py ''name'') = Some (JStr (py '' A ''))"
    by (simp add: valid_payload_def py_def)
  have h2: "\<not> blank (py '' A '')"
    by (simp add: blank_def run_simps)
  have h3: "map_of valid_payload (py ''message'') = Some (JStr (py ''B''))"
    by (simp add: valid_payload_def py_def)
  have h4: "\<not> blank (py ''B'')"
    by (simp add: blank_def run_simps)
  have h5: "map_of valid_payload (py ''note'') = None"
    by (simp add: valid_payload_def py_def)
  have h6: "commit_error env_ok = None"
    by (simp add: env_ok_def)
  have c0: "clock env_ok 0 = t1"
    by (simp add: env_ok_def)
  have c1: "clock env_ok 1 = t2"
    by (simp add: env_ok_def)
  from create_without_note [OF h1 h2 h3 h4 h5 h6, of one_db] h2 h4 show ?thesis
    unfolding c0 c1 by blast
qed

section \<open>Which update bodies are rejected\<close>

lemma dispatch_not_400: "snd (fst (dispatch s (Inl ex))) \<noteq> 400"
  by (cases ex) (simp_all add: dispatch_def not_found_def internal_error_def)

text \<open>
  C7, as stated, fails in both directions: on an existing record the empty mapping, a
  well-formed mapping, is answered with status 400, and a non-empty list, which is not a
  mapping, is accepted with status 200.
\<close>

theorem update_empty_mapping_rejected:
  "snd (fst (handle env_ok one_db (PUT_record 1 (JObj [])))) = 400
   \<and> snd (fst (handle env_ok one_db (PUT_record 1 (JArr [JInt 1])))) = 200"
  by (simp add: env_ok_def one_db_def ann_def update_record_def get_or_404_def
      update_from_dict_def update_name_def update_message_def update_note_def run_simps)

text \<open>
  C7, amended. On an existing record, with the lookup working, the update answers 400
  exactly when the body is falsy (null, false, zero, the empty string, the empty list
  or the empty mapping); a non-empty mapping with the field types of the data model is
  accepted with status 200 when the commit succeeds, whatever its fields change.
\<close>

theorem update_400_iff_falsy:
  assumes "find (\<lambda>x. record_id x = i) (rows s) = Some r" and "query_error e = None"
  shows "(snd (fst (handle e s (PUT_record i data))) = 400) = (\<not> truthy data)
     \<and> (commit_error e = None \<and> kvs \<noteq> [] \<and> partial_update_input kvs
          \<longrightarrow> snd (fst (handle e s (PUT_record i (JObj kvs)))) = 200)"
proof -
  have g: "get_or_404 e s i = Inr r"
    using assms(2) assms(1) by (rule get_or_404_found)
  have a: "(snd (fst (handle e s (PUT_record i data))) = 400) = (\<not> truthy data)"
  proof (cases "truthy data")
    case False
    then show ?thesis
      by (simp add: update_record_def g dispatch_def)
  next
    case True
    show ?thesis
    proof (cases "update_from_dict r data (clock e 0)")
      case (Inl ex)
      then show ?thesis using True dispatch_not_400 [of s ex]
        by (simp add: update_record_def g and_then_def)
    next
      case (Inr r')
      then show ?thesis using True
        by (cases "commit_error e") (simp_all add: update_record_def g and_then_def dispatch_def)
    qed
  qed
  have b: "commit_error e = None \<and> kvs \<noteq> [] \<and> partial_update_input kvs
          \<longrightarrow> snd (fst (handle e s (PUT_record i (JObj kvs)))) = 200"
    by (simp add: update_record_def g update_from_dict_on_input and_then_def dispatch_def)
  from a b show ?thesis
    by (rule conjI)
qed

theorem update_400_iff_falsy_witness:
  "find (\<lambda>x. record_id x = 1) (rows one_db) = Some ann
   \<and> snd (fst (handle env_ok one_db (PUT_record 1 (JObj [])))) = 400
   \<and> snd (fst (handle env_ok one_db (PUT_record 1 (JArr [])))) = 400
   \<and> snd (fst (handle env_ok one_db (PUT_record 1 (JStr (py ''note''))))) \<noteq> 400
   \<and> partial_update_input blank_fields_payload
   \<and> snd (fst (handle env_ok one_db (PUT_record 1 (JObj blank_fields_payload)))) = 200"
proof -
  have h1: "find (\<lambda>x. record_id x = 1) (rows one_db) = Some ann"
    by (simp add: one_db_def ann_def)
  have h2: "query_error env_ok = None" and h3: "commit_error env_ok = None"
    by (simp_all add: env_ok_def)
  have h4: "partial_update_input blank_fields_payload"
    by (simp add: partial_update_input_def blank_fields_payload_def py_def)
  have h5: "blank_fields_payload \<noteq> []"
    by (simp add: blank_fields_payload_def)
  have t: "truthy (JStr (py ''note''))"
    by (simp add: py_def)
  note th = update_400_iff_falsy [OF h1 h2]
  have "snd (fst (handle env_ok one_db (PUT_record 1 (JObj [])))) = 400"
    using th [of "JObj []"] by simp
  moreover have "snd (fst (handle env_ok one_db (PUT_record 1 (JArr [])))) = 400"
    using th [of "JArr []"] by simp
  moreover have "snd (fst (handle env_ok one_db (PUT_record 1 (JStr (py ''note''))))) \<noteq> 400"
    using th [of "JStr (py ''note'')"] t by blast
  moreover have "snd (fst (handle env_ok one_db (PUT_record 1 (JObj blank_fields_payload)))) = 200"
    using th [of JNull blank_fields_payload] h3 h4 h5 by blast
  ultimately show ?thesis using h1 h4
    by blast
qed

section \<open>The format of serialized timestamps\<close>

lemma dec_digits: "list_all is_digit (dec n)"
proof (induction n rule: dec.induct)
  case (1 n)
  show ?case
  proof (cases "n < 10")
    case True
    then show ?thesis
      by (subst dec.simps) (simp add: is_digit_def)
  next
    case False
    have "n mod 10 < 10" by simp
    then have "is_digit (48 + n mod 10)"
      unfolding is_digit_def by linarith
    with False 1 show ?thesis
      by (subst dec.simps) simp
  qed
qed

lemma length_dec: "n < 10 ^ w \<Longrightarrow> 0 < w \<Longrightarrow> length (dec n) \<le> w"
proof (induction n arbitrary: w rule: dec.induct)
  case (1 n)
  show ?case
  proof (cases "n < 10")
    case True
    then show ?thesis using "1.prems"
      by (subst dec.simps) simp
  next
    case False
    from "1.prems" obtain v where w: "w = Suc v"
      by (cases w) simp_all
    with False "1.prems" have v: "0 < v"
      by (cases v) simp_all
    from "1.prems" w have "n div 10 < 10 ^ v"
      by (simp add: less_mult_imp_div_less mult.commute)
    with False v have "length (dec (n div 10)) \<le> v"
      by (intro "1.IH") simp_all
    with False w show ?thesis
      by (subst dec.simps) simp
  qed
qed

lemma zfill_fixed:
  assumes "n < 10 ^ w" and "0 < w"
  shows "matches (replicate w Digit) (zfill w n)"
proof -
  have l: "length (zfill w n) = w"
    using length_dec [OF assms] by (simp add: zfill_def)
  have "is_digit 48"
    by (simp add: is_digit_def)
  then have d: "list_all is_digit (zfill w n)"
    using dec_digits [of n] by (auto simp: zfill_def list_all_iff)
  from l d show ?thesis
    by (auto simp: matches_def list_all2_conv_all_nth list_all_length)
qed


lemma matches_append:
  "matches ps s \<Longrightarrow> matches qs u \<Longrightarrow> matches (ps @ qs) (s @ u)"
  unfolding matches_def by (rule list_all2_appendI)

lemma matches_lit: "matches [Lit c] [c]"
  by (simp add: matches_def)

lemma date_time_part_format:
  assumes "valid_datetime t"
  shows "matches (pattern_of ''YYYY-MM-DDTHH:MM:SS'') (date_time_part t)"
proof -
  have p: "pattern_of ''YYYY-MM-DDTHH:MM:SS''
      = replicate 4 Digit @ [Lit 45] @ replicate 2 Digit @ [Lit 45] @ replicate 2 Digit
        @ [Lit 84] @ replicate 2 Digit @ [Lit 58] @ replicate 2 Digit @ [Lit 58]
        @ replicate 2 Digit"
    by (simp add: pattern_of_def numeral_eq_Suc)
  have y: "matches (replicate 4 Digit) (zfill 4 (year t))"
    using assms by (intro zfill_fixed) (simp_all add: valid_datetime_def)
  have mo: "matches (replicate 2 Digit) (zfill 2 (month t))"
    using assms by (intro zfill_fixed) (simp_all add: valid_datetime_def)
  have d: "matches (replicate 2 Digit) (zfill 2 (day t))"
    using assms by (intro zfill_fixed) (simp_all add: valid_datetime_def)
  have h: "matches (replicate 2 Digit) (zfill 2 (hour t))"
    using assms by (intro zfill_fixed) (simp_all add: valid_datetime_def)
  have mi: "matches (replicate 2 Digit) (zfill 2 (minute t))"
    using assms by (intro zfill_fixed) (simp_all add: valid_datetime_def)
  have se: "matches (replicate 2 Digit) (zfill 2 (second t))"
    using assms by (intro zfill_fixed) (simp_all add: valid_datetime_def)
  have l: "py ''-'' = [45]" "py ''T'' = [84]" "py '':'' = [58]"
    by (simp_all add: py_def)
  show ?thesis
    unfolding p date_time_part_def l
    by (intro matches_append matches_lit y mo d h mi se)
qed

lemma fraction_format:
  assumes "valid_datetime t"
  shows "matches (pattern_of ''.ffffff'') (py ''.'' @ zfill 6 (microsecond t))"
proof -
  have p: "pattern_of ''.ffffff'' = [Lit 46] @ replicate 6 Digit"
    by (simp add: pattern_of_def numeral_eq_Suc)
  have f: "matches (replicate 6 Digit) (zfill 6 (microsecond t))"
    using assms by (intro zfill_fixed) (simp_all add: valid_datetime_def)
  have l: "py ''.'' = [46]"
    by (simp add: py_def)
  show ?thesis
    unfolding p l by (intro matches_append matches_lit f)
qed

lemma pattern_of_append: "pattern_of (a @ b) = pattern_of a @ pattern_of b"
  by (simp add: pattern_of_def)

lemma strftime_format:
  assumes "valid_datetime t"
  shows "matches zulu_format (strftime t)"
proof -
  have z: "matches (pattern_of ''Z'') (py ''Z'')"
    by (simp add: pattern_of_def py_def matches_def)
  have "matches (pattern_of ''YYYY-MM-DDTHH:MM:SS'' @ pattern_of ''.ffffff'' @ pattern_of ''Z'')
      (date_time_part t @ (py ''.'' @ zfill 6 (microsecond t)) @ py ''Z'')"
    by (intro matches_append date_time_part_format fraction_format z assms)
  then show ?thesis
    by (simp add: zulu_format_def strftime_def pattern_of_def)
qed

lemma isoformat_format:
  assumes "valid_datetime t"
  shows "matches (if microsecond t = 0 then offset_format_short else offset_format)
    (isoformat t)"
proof -
  have o: "matches (pattern_of ''+00:00'') (py ''+00:00'')"
    by (simp add: pattern_of_def py_def matches_def is_digit_def)
  show ?thesis
  proof (cases "microsecond t = 0")
    case True
    have "matches (pattern_of ''YYYY-MM-DDTHH:MM:SS'' @ pattern_of ''+00:00'')
        (date_time_part t @ py ''+00:00'')"
      by (intro matches_append date_time_part_format o assms)
    with True show ?thesis
      by (simp add: offset_format_short_def isoformat_def pattern_of_def)
  next
    case False
    have "matches (pattern_of ''YYYY-MM-DDTHH:MM:SS'' @ pattern_of ''.ffffff''
          @ pattern_of ''+00:00'')
        (date_time_part t @ (py ''.'' @ zfill 6 (microsecond t)) @ py ''+00:00'')"
      by (intro matches_append date_time_part_format fraction_format o assms)
    with False show ?thesis
      by (simp add: offset_format_def isoformat_def pattern_of_def)
  qed
qed

lemma isoformat_t1: "isoformat t1 = py ''2024-05-17T09:30:15.000001+00:00''"
  by code_simp

lemma valid_t1: "valid_datetime t1"
  by (simp add: valid_datetime_def t1_def)

text \<open>
  C8, as stated, fails for the health endpoint: its timestamp is rendered by
  \<open>isoformat\<close>, which ends in the offset \<open>+00:00\<close> and not in \<open>Z\<close>.
\<close>

theorem health_timestamp_has_offset:
  "field (fst (fst (handle env_ok empty_db GET_root))) (py ''timestamp'')
     = Some (JStr (py ''2024-05-17T09:30:15.000001+00:00''))
   \<and> \<not> matches zulu_format (py ''2024-05-17T09:30:15.000001+00:00'')"
proof -
  have c: "clock env_ok 0 = t1"
    by (simp add: env_ok_def)
  have a: "field (fst (fst (handle env_ok empty_db GET_root))) (py ''timestamp'')
     = Some (JStr (py ''2024-05-17T09:30:15.000001+00:00''))"
    by (simp add: health_check_def dispatch_def c isoformat_t1) (simp add: py_def)
  have "length zulu_format \<noteq> length (py ''2024-05-17T09:30:15.000001+00:00'')"
    by (simp add: zulu_format_def pattern_of_def py_def)
  then have b: "\<not> matches zulu_format (py ''2024-05-17T09:30:15.000001+00:00'')"
    unfolding matches_def using list_all2_lengthD by blast
  from a b show ?thesis
    by (rule conjI)
qed

text \<open>
  C8, amended. For a valid clock reading, \<open>createdAt\<close> and \<open>updatedAt\<close> of a record's
  JSON are rendered in the format \<open>YYYY-MM-DDTHH:MM:SS.ffffffZ\<close>; the timestamp of the
  health endpoint is rendered with the offset \<open>+00:00\<close> in place of \<open>Z\<close>, and without the
  fraction when the microsecond field is zero.
\<close>

theorem timestamps_rendering:
  assumes "valid_datetime t" and "clock e 0 = t"
  shows "field (to_dict (r\<lparr>created_at := Some t\<rparr>)) (py ''createdAt'') = Some (JStr (strftime t))
     \<and> field (to_dict (r\<lparr>updated_at := Some t\<rparr>)) (py ''updatedAt'') = Some (JStr (strftime t))
     \<and> matches zulu_format (strftime t)
     \<and> field (fst (fst (handle e s GET_root))) (py ''timestamp'') = Some (JStr (isoformat t))
     \<and> matches (if microsecond t = 0 then offset_format_short else offset_format)
          (isoformat t)"
proof -
  have a: "field (to_dict (r\<lparr>created_at := Some t\<rparr>)) (py ''createdAt'') = Some (JStr (strftime t))"
    by (simp add: to_dict_def opt_time_def py_def)
  have b: "field (to_dict (r\<lparr>updated_at := Some t\<rparr>)) (py ''updatedAt'') = Some (JStr (strftime t))"
    by (simp add: to_dict_def opt_time_def py_def)
  have c: "field (fst (fst (handle e s GET_root))) (py ''timestamp'') = Some (JStr (isoformat t))"
    by (simp add: health_check_def dispatch_def assms(2)) (simp add: py_def)
  from a b c strftime_format [OF assms(1)] isoformat_format [OF assms(1)] show ?thesis
    by blast
qed

theorem timestamps_rendering_witness:
  "valid_datetime t1
   \<and> field (to_dict (ann\<lparr>created_at := Some t1\<rparr>)) (py ''createdAt'')
      = Some (JStr (py ''2024-05-17T09:30:15.000001Z''))
   \<and> matches zulu_format (py ''2024-05-17T09:30:15.000001Z'')
   \<and> field (fst (fst (handle env_ok one_db GET_root))) (py ''timestamp'')
      = Some (JStr (py ''2024-05-17T09:30:15.000001+00:00''))
   \<and> matches offset_format (py ''2024-05-17T09:30:15.000001+00:00'')"
proof -
  have c: "clock env_ok 0 = t1"
    by (simp add: env_ok_def)
  have m: "microsecond t1 \<noteq> 0"
    by (simp add: t1_def)
  from timestamps_rendering [OF valid_t1 c, of ann one_db] m valid_t1 show ?thesis
    unfolding strftime_t1 isoformat_t1 by simp
qed

end
